theory Spec2Isabelle
  imports Complex_Main
begin

section \<open>Python values used by the facade\<close>

text \<open>
  Exceptions are values.  The classes are the ones that \<^verbatim>\<open>facade.py\<close> and
  \<^verbatim>\<open>views.py\<close> raise or catch, together with the built-in errors that the
  expressions of the source can raise.
\<close>

datatype exn =
    ValueError
  | OverflowError
  | TypeError
  | RuntimeError string
  | AttributeError
  | SystemPayFormNotValid string
  | SystemPayGatewayPaymentRejected string
  | SystemPayGatewayParamError "string option"
  | SystemPayGatewayServerError string
  | PaymentError string
  | Http404 string
  | OrderDoesNotExist
  | OrderMultipleObjectsReturned

subsection \<open>Dictionaries and query dictionaries\<close>

text \<open>
  A Python \<^verbatim>\<open>dict\<close> with string keys is an association list with distinct keys in
  insertion order.  A Django \<^verbatim>\<open>QueryDict\<close> is the list of the (key, value) pairs
  of the request body in wire order; a key may occur several times, iteration yields each
  key once (in order of first occurrence) and \<^verbatim>\<open>get\<close> returns the last value.
\<close>

type_synonym pydict = "(string \<times> string) list"
type_synonym querydict = "(string \<times> string) list"

definition dict_get :: "pydict \<Rightarrow> string \<Rightarrow> string option" where
  "dict_get d k = map_of d k"

definition dict_get_default :: "pydict \<Rightarrow> string \<Rightarrow> string \<Rightarrow> string" where
  "dict_get_default d k dflt = (case map_of d k of None \<Rightarrow> dflt | Some v \<Rightarrow> v)"

definition qd_keys :: "querydict \<Rightarrow> string list" where
  "qd_keys q = rev (remdups (rev (map fst q)))"

definition qd_get :: "querydict \<Rightarrow> string \<Rightarrow> string option" where
  "qd_get q k = map_of (rev q) k"

definition qd_contains :: "querydict \<Rightarrow> string \<Rightarrow> bool" where
  "qd_contains q k = (k \<in> set (map fst q))"

text \<open>\<^verbatim>\<open>dict((k, q.get(k)) for k in q)\<close>; every key of \<open>q\<close> has a value.\<close>

definition qd_to_dict :: "querydict \<Rightarrow> pydict" where
  "qd_to_dict q = map (\<lambda>k. (k, case qd_get q k of None \<Rightarrow> [] | Some v \<Rightarrow> v)) (qd_keys q)"

text \<open>\<^verbatim>\<open>d[k] = v\<close> and \<^verbatim>\<open>d.update(e)\<close>: a key that is present keeps its place.\<close>

fun dict_set :: "(string \<times> 'v) list \<Rightarrow> string \<Rightarrow> 'v \<Rightarrow> (string \<times> 'v) list" where
  "dict_set [] k v = [(k, v)]"
| "dict_set ((k', v') # d) k v = (if k' = k then (k, v) # d else (k', v') # dict_set d k v)"

definition dict_update :: "(string \<times> 'v) list \<Rightarrow> (string \<times> 'v) list \<Rightarrow> (string \<times> 'v) list" where
  "dict_update d e = foldl (\<lambda>acc (k, v). dict_set acc k v) d e"

text \<open>\<^verbatim>\<open>x or ""\<close> for a value that is a string or \<^verbatim>\<open>None\<close>.\<close>

definition or_empty :: "string option \<Rightarrow> string" where
  "or_empty x = (case x of None \<Rightarrow> [] | Some v \<Rightarrow> v)"

subsection \<open>\<^verbatim>\<open>int(s)\<close>\<close>

text \<open>
  \<^verbatim>\<open>int\<close> on a string, base ten: surrounding whitespace is dropped, one sign is
  allowed, then decimal digits, where single underscores may separate digits.  Anything
  else raises \<^verbatim>\<open>ValueError\<close>.  Strings are byte strings here, so only the ASCII
  whitespace (space, tab, line feed, vertical tab, form feed, carriage return) and the
  ASCII digits are recognised.
\<close>

definition is_space :: "char \<Rightarrow> bool" where
  "is_space c = (c \<in> set [CHR '' '', CHR 0x09, CHR 0x0A, CHR 0x0B, CHR 0x0C, CHR 0x0D])"

definition is_digit :: "char \<Rightarrow> bool" where
  "is_digit c = (c \<in> set ''0123456789'')"

definition digit_val :: "char \<Rightarrow> int" where
  "digit_val c = of_char c - 48"

definition strip :: "string \<Rightarrow> string" where
  "strip s = rev (dropWhile is_space (rev (dropWhile is_space s)))"

text \<open>
  \<open>digits acc prev s\<close> reads the digits of \<open>s\<close> into \<open>acc\<close>; \<open>prev\<close> tells
  whether the previous character was a digit (an underscore needs a digit on both sides).
\<close>

fun digits :: "int \<Rightarrow> bool \<Rightarrow> string \<Rightarrow> int option" where
  "digits acc prev [] = (if prev then Some acc else None)"
| "digits acc prev (c # cs) =
     (if is_digit c then digits (10 * acc + digit_val c) True cs
      else if c = CHR ''_'' \<and> prev then digits acc False cs
      else None)"

definition py_int :: "string \<Rightarrow> exn + int" where
  "py_int s =
     (case strip s of
        [] \<Rightarrow> Inl ValueError
      | c # cs \<Rightarrow>
          if c = CHR ''-'' then
            (case digits 0 False cs of None \<Rightarrow> Inl ValueError | Some n \<Rightarrow> Inr (- n))
          else if c = CHR ''+'' then
            (case digits 0 False cs of None \<Rightarrow> Inl ValueError | Some n \<Rightarrow> Inr n)
          else
            (case digits 0 False (c # cs) of None \<Rightarrow> Inl ValueError | Some n \<Rightarrow> Inr n))"

subsection \<open>Floats and \<^verbatim>\<open>Decimal\<close>\<close>

text \<open>
  A finite Python float is an IEEE 754 binary64 number.  It is modelled by a pair
  \<open>(m, k)\<close> of integers that denotes \<open>m * 2^k\<close>, where \<open>m\<close> has at most 53 binary
  digits.  \<open>round_double p d\<close> is the float nearest to the quotient \<open>p / d\<close> of two
  integers (\<open>0 < d\<close>), ties to even; it is used only where the result is in the range of
  the normal binary64 numbers.
\<close>

type_synonym pyfloat = "int \<times> int"

function bitlen :: "int \<Rightarrow> int" where
  "bitlen n = (if n \<le> 0 then 0 else 1 + bitlen (n div 2))"
  by pat_completeness auto
termination
  by (relation "measure nat") auto

declare bitlen.simps [simp del]

text \<open>The integer part of the binary logarithm of \<open>p / d\<close>, for positive \<open>p\<close> and \<open>d\<close>.\<close>

definition ilog2 :: "int \<Rightarrow> int \<Rightarrow> int" where
  "ilog2 p d =
     (let c = bitlen p - bitlen d
      in if (if 0 \<le> c then d * 2 ^ nat c \<le> p else d \<le> p * 2 ^ nat (- c)) then c else c - 1)"

text \<open>The integer nearest to \<open>n / m\<close> (\<open>0 < m\<close>), ties to the even one.\<close>

definition round_half_even :: "int \<Rightarrow> int \<Rightarrow> int" where
  "round_half_even n m =
     (let f = n div m; r = n mod m
      in if 2 * r < m then f
         else if m < 2 * r then f + 1
         else if even f then f else f + 1)"

definition round_double :: "int \<Rightarrow> int \<Rightarrow> pyfloat" where
  "round_double p d =
     (if p = 0 then (0, 0)
      else let a = \<bar>p\<bar>;
               k = ilog2 a d - 52;
               m = (if 0 \<le> k then round_half_even a (d * 2 ^ nat k)
                    else round_half_even (a * 2 ^ nat (- k)) d)
           in (sgn p * m, k))"

text \<open>
  The conversion of an \<^verbatim>\<open>int\<close> operand to float: correctly rounded, and
  \<^verbatim>\<open>OverflowError\<close> when the rounded value reaches \<open>2^1024\<close>.
\<close>

definition float_of_int :: "int \<Rightarrow> exn + pyfloat" where
  "float_of_int n =
     (let (m, k) = round_double n 1
      in if 1024 < bitlen \<bar>m\<bar> + k then Inl OverflowError else Inr (m, k))"

text \<open>
  \<^verbatim>\<open>n / 100.0\<close> for an \<^verbatim>\<open>int\<close> \<open>n\<close>: the operand is converted to float
  and the quotient is rounded once.  A float that came from an \<^verbatim>\<open>int\<close> is zero
  or at least one in magnitude and below \<open>2^1024\<close>, so its quotient by one hundred is
  zero or in the normal range.  Scaling by a power of two is exact there.
\<close>

definition int_truediv_100 :: "int \<Rightarrow> exn + pyfloat" where
  "int_truediv_100 n =
     (case float_of_int n of
        Inl e \<Rightarrow> Inl e
      | Inr (m, k) \<Rightarrow> (let (m', k') = round_double m 100 in Inr (m', k' + k)))"

text \<open>
  \<^verbatim>\<open>Decimal(x)\<close> of a float is exact: the decimal denotes the same number,
  here as a rational.
\<close>

definition D :: "pyfloat \<Rightarrow> rat" where
  "D x = (case x of (m, k) \<Rightarrow>
            if 0 \<le> k then of_int (m * 2 ^ nat k) else of_int m / of_int (2 ^ nat (- k)))"

subsection \<open>Formatting an integer with \<^verbatim>\<open>%s\<close>\<close>

function str_digits :: "int \<Rightarrow> string" where
  "str_digits n =
     (if n < 10 then [''0123456789'' ! nat n]
      else str_digits (n div 10) @ [''0123456789'' ! nat (n mod 10)])"
  by pat_completeness auto
termination
  by (relation "measure nat") auto

declare str_digits.simps [simp del]

definition str_int :: "int \<Rightarrow> string" where
  "str_int n = (if n < 0 then CHR ''-'' # str_digits (- n) else str_digits n)"

text \<open>\<^verbatim>\<open>"%s" % v\<close> for a value that is a string or \<^verbatim>\<open>None\<close>.\<close>

definition str_opt :: "string option \<Rightarrow> string" where
  "str_opt v = (case v of None \<Rightarrow> ''None'' | Some x \<Rightarrow> x)"

section \<open>Transaction records and the store\<close>

text \<open>
  \<^verbatim>\<open>models.py\<close> is not among the sources.  A transaction record has the fields
  that \<^verbatim>\<open>Facade.save_txn\<close> passes to \<^verbatim>\<open>objects.create\<close>, the primary key, the
  \<^verbatim>\<open>error_message\<close> that \<^verbatim>\<open>handle_request\<close> assigns and the
  \<^verbatim>\<open>date_created\<close> that \<^verbatim>\<open>ReturnResponseView\<close> orders by.
\<close>

datatype txn_mode = MODE_SUBMIT | MODE_RETURN

record txn =
  txn_id :: int
  mode :: txn_mode
  operation_type :: "string option"
  trans_id :: "string option"
  trans_date :: "string option"
  order_number :: "string option"
  amount :: rat
  auth_result :: "string option"
  result :: "string option"
  raw_request :: string
  error_message :: "string option"
  date_created :: nat

text \<open>Oscar's order, with the attributes that the facade and the views read.\<close>

record user =
  full_name :: string
  email :: string
  pk :: int

record address =
  title :: "string option"
  salutation :: string
  line1 :: "string option"
  line2 :: "string option"
  city :: "string option"
  state :: "string option"
  postcode :: "string option"
  country_iso_3166_1_a2 :: string

record order =
  order_id :: int
  number :: string
  total_incl_tax :: rat
  user :: "user option"
  billing_address :: "address option"
  shipping_address :: "address option"

record source =
  source_type :: string
  currency :: string
  amount_allocated :: rat
  amount_debited :: rat
  amount_refunded :: rat
  reference :: string
  source_order :: int

datatype level = SUCCESS | ERROR

record session =
  checkout_order_id :: "int option"
  checkout_data :: pydict

text \<open>
  Everything that outlives a request: the tables of transactions, orders, payment
  sources and source types, the error log of the \<^verbatim>\<open>systempay\<close> logger, and the
  session and message queue of the client.  \<open>clock\<close> is the time that a new record is
  stamped with.
\<close>

record world =
  txns :: "txn list"
  next_txn_id :: int
  clock :: nat
  orders :: "order list"
  sources :: "source list"
  source_types :: "(string \<times> string) list"
  error_log :: "string list"
  messages :: "(level \<times> string) list"
  session :: session

text \<open>\<^verbatim>\<open>SystemPayTransaction.objects.create\<close> and \<^verbatim>\<open>txn.save()\<close>.\<close>

definition txn_create :: "txn \<Rightarrow> world \<Rightarrow> txn \<times> world" where
  "txn_create t s =
     (let t' = t\<lparr>txn_id := next_txn_id s, date_created := clock s\<rparr>
      in (t', s\<lparr>txns := txns s @ [t'], next_txn_id := next_txn_id s + 1\<rparr>))"

definition txn_save :: "txn \<Rightarrow> world \<Rightarrow> world" where
  "txn_save t s = s\<lparr>txns := map (\<lambda>r. if txn_id r = txn_id t then t else r) (txns s)\<rparr>"

section \<open>The parts of the repository outside the sources\<close>

text \<open>
  A form, as far as \<^verbatim>\<open>facade.py\<close> reads it, is its \<^verbatim>\<open>data\<close> dictionary.
\<close>

record form =
  data :: pydict

text \<open>The values of the keyword arguments of the submit form.\<close>

datatype pval = PStr string | PInt int

text \<open>
  \<^verbatim>\<open>gateway.py\<close>, \<^verbatim>\<open>forms.py\<close>, \<^verbatim>\<open>models.py\<close>, \<^verbatim>\<open>utils.py\<close> and
  \<^verbatim>\<open>exceptions.py\<close> are not among the sources.  What \<^verbatim>\<open>facade.py\<close> and
  \<^verbatim>\<open>views.py\<close> call in them is a parameter of the model:
  \<^item> \<open>is_valid\<close>, \<open>cleaned_signature\<close>: \<^verbatim>\<open>form.is_valid()\<close> and
    \<^verbatim>\<open>form.cleaned_data['signature']\<close> of the return form;
  \<^item> \<open>printable_form_errors\<close>: the function of \<^verbatim>\<open>utils.py\<close>;
  \<^item> \<open>is_signature_valid\<close>, \<open>compute_signature\<close>, \<open>get_submit_form\<close>, \<open>sign\<close>,
    \<open>gateway_URL\<close>: the methods and the constant of \<^verbatim>\<open>gateway.Gateway\<close>;
  \<^item> \<open>is_complete\<close>, \<open>txn_currency\<close>, \<open>txn_reference\<close>, \<open>OPERATION_TYPE_DEBIT\<close>,
    \<open>OPERATION_TYPE_CREDIT\<close>: the method, attributes and constants of
    \<^verbatim>\<open>SystemPayTransaction\<close>;
  \<^item> \<open>systempay_error_is_payment_error\<close>: whether \<^verbatim>\<open>SystemPayError\<close> derives from
    oscar's \<^verbatim>\<open>PaymentError\<close>;
  \<^item> \<open>exc_message\<close>: the \<^verbatim>\<open>message\<close> attribute of an exception, when it has one;
  \<^item> \<open>urlencode\<close>: the standard library's function, whose output no branch depends on;
  \<^item> \<open>checkout_session_flush\<close>: \<^verbatim>\<open>CheckoutSessionData.flush\<close> of oscar.
\<close>

record env =
  is_valid :: "form \<Rightarrow> bool"
  cleaned_signature :: "form \<Rightarrow> string"
  printable_form_errors :: "form \<Rightarrow> string"
  is_signature_valid :: "form \<Rightarrow> bool"
  compute_signature :: "form \<Rightarrow> string"
  get_submit_form :: "rat \<Rightarrow> (string \<times> pval) list \<Rightarrow> form"
  sign :: "form \<Rightarrow> form"
  gateway_URL :: string
  is_complete :: "txn \<Rightarrow> bool"
  txn_currency :: "txn \<Rightarrow> string"
  txn_reference :: "txn \<Rightarrow> string"
  OPERATION_TYPE_DEBIT :: string
  OPERATION_TYPE_CREDIT :: string
  systempay_error_is_payment_error :: bool
  exc_message :: "exn \<Rightarrow> string option"
  urlencode :: "pydict \<Rightarrow> string"
  checkout_session_flush :: "session \<Rightarrow> session"

text \<open>
  Modelled from the spec: \<^verbatim>\<open>Gateway.get_return_form\<close> (in \<^verbatim>\<open>gateway.py\<close>, not
  among the sources).  The spec's \<^verbatim>\<open>parseInboundFields\<close> copies an arbitrary
  key-value payload verbatim, with no filtering: the form's data is the dictionary of the
  keyword arguments.
\<close>

definition get_return_form :: "pydict \<Rightarrow> form" where
  "get_return_form kwargs = \<lparr>data = kwargs\<rparr>"

section \<open>The facade\<close>

definition get_order_number :: "form \<Rightarrow> string option" where
  "get_order_number f = dict_get (data f) ''vads_order_id''"

definition get_total_incl_tax :: "form \<Rightarrow> exn + rat" where
  "get_total_incl_tax f =
     (case py_int (dict_get_default (data f) ''vads_amount'' ''0'') of
        Inl e \<Rightarrow> Inl e
      | Inr n \<Rightarrow>
          (case int_truediv_100 n of
             Inl e \<Rightarrow> Inl e
           | Inr x \<Rightarrow> Inr (D x)))"

definition get_result :: "form \<Rightarrow> string option" where
  "get_result f = dict_get (data f) ''vads_result''"

definition get_extra_result :: "form \<Rightarrow> string option" where
  "get_extra_result f = dict_get (data f) ''vads_extra_result''"

definition get_auth_result :: "form \<Rightarrow> string option" where
  "get_auth_result f = dict_get (data f) ''vads_auth_result''"


subsection \<open>\<^verbatim>\<open>get_submit_form_populated_with_order\<close>\<close>

definition get_submit_form_populated_with_order ::
  "env \<Rightarrow> order \<Rightarrow> (string \<times> pval) list \<Rightarrow> form" where
  "get_submit_form_populated_with_order env order kwargs =
     (let params0 = dict_set [] ''vads_order_id'' (PStr (number order));
          params1 = (case user order of
                       None \<Rightarrow> params0
                     | Some u \<Rightarrow> dict_update params0
                         [(''vads_cust_name'', PStr (full_name u)),
                          (''vads_cust_email'', PStr (email u)),
                          (''vads_cust_id'', PInt (pk u))]);
          params2 = (case billing_address order of
                       None \<Rightarrow> params1
                     | Some b \<Rightarrow> dict_update params1
                         [(''vads_cust_title'', PStr (or_empty (title b))),
                          (''vads_cust_address'', PStr (or_empty (line1 b))),
                          (''vads_cust_city'', PStr (or_empty (city b))),
                          (''vads_cust_state'', PStr (or_empty (state b))),
                          (''vads_cust_zip'', PStr (or_empty (postcode b))),
                          (''vads_cust_country'', PStr (country_iso_3166_1_a2 b))]);
          params3 = (case shipping_address order of
                       None \<Rightarrow> params2
                     | Some a \<Rightarrow> dict_update params2
                         [(''vads_ship_to_name'', PStr (salutation a)),
                          (''vads_ship_to_street'', PStr (or_empty (line1 a))),
                          (''vads_ship_to_street2'', PStr (or_empty (line2 a))),
                          (''vads_ship_to_city'', PStr (or_empty (city a))),
                          (''vads_ship_to_state'', PStr (or_empty (state a))),
                          (''vads_ship_to_zip'', PStr (or_empty (postcode a))),
                          (''vads_ship_to_country'', PStr (country_iso_3166_1_a2 a))]);
          params4 = dict_update params3 kwargs;
          form = get_submit_form env (total_incl_tax order) params4
      in sign env form)"

subsection \<open>Requests\<close>

record request =
  user_is_superuser :: bool
  GET :: querydict
  POST :: querydict

text \<open>
  \<^verbatim>\<open>self.gateway.get_return_form(**dict((k, request.POST.get(k)) for k in request.POST))\<close>:
  every key of the request body becomes a keyword argument of the bound method.  The
  method's first parameter is already bound to the gateway, so a key of that parameter's
  name makes the call raise \<^verbatim>\<open>TypeError\<close> (multiple values for the argument).
  \<^verbatim>\<open>gateway.py\<close> is not among the sources: the parameter is taken to have its
  conventional name \<^verbatim>\<open>self\<close>, and every other key to be taken by
  \<^verbatim>\<open>**kwargs\<close>.
\<close>

definition get_return_form_populated_with_request :: "request \<Rightarrow> exn + form" where
  "get_return_form_populated_with_request req =
     (let kwargs = qd_to_dict (POST req)
      in if ''self'' \<in> set (map fst kwargs) then Inl TypeError
         else Inr (get_return_form kwargs))"

subsection \<open>\<^verbatim>\<open>save_txn\<close>\<close>

text \<open>
  The \<^verbatim>\<open>data\<close> argument of \<^verbatim>\<open>save_txn\<close> is a \<^verbatim>\<open>QueryDict\<close> (the copy of
  \<^verbatim>\<open>request.POST\<close>) or a plain dictionary (the data of the submit form).
\<close>

datatype data_arg = QueryDict querydict | Dict pydict

definition save_txn ::
  "env \<Rightarrow> string option \<Rightarrow> rat \<Rightarrow> data_arg \<Rightarrow> txn_mode \<Rightarrow> world \<Rightarrow> txn \<times> world" where
  "save_txn env order_no amt dat md s =
     (let d = (case dat of QueryDict q \<Rightarrow> qd_to_dict q | Dict d0 \<Rightarrow> dict_update [] d0)
      in txn_create
           \<lparr>txn_id = 0,
            mode = md,
            operation_type = dict_get d ''vads_operation_type'',
            trans_id = dict_get d ''vads_trans_id'',
            trans_date = dict_get d ''vads_trans_date'',
            order_number = order_no,
            amount = amt,
            auth_result = dict_get d ''vads_auth_result'',
            result = dict_get d ''vads_result'',
            raw_request = urlencode env d,
            error_message = None,
            date_created = 0\<rparr> s)"

definition save_submit_txn ::
  "env \<Rightarrow> string \<Rightarrow> rat \<Rightarrow> form \<Rightarrow> world \<Rightarrow> txn \<times> world" where
  "save_submit_txn env order_no amt f s =
     save_txn env (Some order_no) amt (Dict (data f)) MODE_SUBMIT s"

definition save_txn_notification ::
  "env \<Rightarrow> string option \<Rightarrow> rat \<Rightarrow> request \<Rightarrow> world \<Rightarrow> txn \<times> world" where
  "save_txn_notification env order_no amt req s =
     save_txn env order_no amt (QueryDict (POST req)) MODE_RETURN s"

subsection \<open>\<^verbatim>\<open>handle_request\<close>\<close>

text \<open>
  \<open>active\<close> is the exception that is being handled when \<^verbatim>\<open>handle_request\<close> is
  called, if any: the bare \<^verbatim>\<open>raise\<close> of the branch for result \<^verbatim>\<open>17\<close> raises it
  again, and raises \<^verbatim>\<open>RuntimeError\<close> when there is none.
\<close>

definition handle_request ::
  "env \<Rightarrow> exn option \<Rightarrow> request \<Rightarrow> world \<Rightarrow> (exn + txn) \<times> world" where
  "handle_request env active req s =
     (case get_return_form_populated_with_request req of
        Inl e \<Rightarrow> (Inl e, s)
      | Inr f \<Rightarrow>
         (let order_no = get_order_number f
          in case get_total_incl_tax f of
           Inl e \<Rightarrow> (Inl e, s)
         | Inr tot \<Rightarrow>
             (case save_txn_notification env order_no tot req s of
                (t, s1) \<Rightarrow>
                  if \<not> is_valid env f then
                    (let t' = t\<lparr>error_message := Some (printable_form_errors env f)\<rparr>;
                         s2 = txn_save t' s1;
                         msg = ''The data received are not complete: ''
                               @ printable_form_errors env f
                               @ ''. See the transaction record #'' @ str_int (txn_id t')
                               @ '' for more details''
                     in (Inl (SystemPayFormNotValid msg), s2))
                  else if \<not> is_signature_valid env f then
                    (let t' = t\<lparr>error_message :=
                                 Some (''Signature not valid. Get '' @ [CHR 0x27]
                                       @ cleaned_signature env f @ [CHR 0x27]
                                       @ '' instead of '' @ [CHR 0x27]
                                       @ compute_signature env f @ [CHR 0x27])\<rparr>;
                         s2 = txn_save t' s1
                     in (Inl (SystemPayFormNotValid
                                (''Incorrect signature. Check SystemPayTransaction #''
                                 @ str_int (txn_id t') @ '' for more details'')), s2))
                  else if \<not> is_complete env t then
                    (if result t = Some ''02'' then
                       (Inl (SystemPayGatewayPaymentRejected
                               ''The shop must contact the bank''), s1)
                     else if result t = Some ''05'' then
                       (Inl (SystemPayGatewayPaymentRejected
                               ''The payment has been rejected''), s1)
                     else if result t = Some ''30'' then
                       (let extra_result = get_extra_result f
                        in (Inl (SystemPayGatewayParamError extra_result), s1))
                     else if result t = Some ''96'' then
                       (Inl (SystemPayGatewayServerError
                               ''Technical error while processing the payment''), s1)
                     else if result t = Some ''17'' then
                       (case active of
                          None \<Rightarrow> (Inl (RuntimeError ''No active exception to reraise''), s1)
                        | Some e \<Rightarrow> (Inl e, s1))
                     else
                       (Inl (SystemPayGatewayServerError
                               (''Unknown error: '' @ str_opt (result t))), s1))
                  else (Inr t, s1))))"

section \<open>The views\<close>

text \<open>
  \<^verbatim>\<open>Order.objects.get\<close> with a condition: the one order that satisfies it, or
  \<^verbatim>\<open>DoesNotExist\<close>, or \<^verbatim>\<open>MultipleObjectsReturned\<close>.
\<close>

definition orders_get :: "(order \<Rightarrow> bool) \<Rightarrow> world \<Rightarrow> exn + order" where
  "orders_get P s =
     (case filter P (orders s) of
        [] \<Rightarrow> Inl OrderDoesNotExist
      | [x] \<Rightarrow> Inr x
      | _ \<Rightarrow> Inl OrderMultipleObjectsReturned)"

text \<open>\<^verbatim>\<open>q[k]\<close> on a \<^verbatim>\<open>QueryDict\<close>, read only after \<^verbatim>\<open>k in q\<close>.\<close>

definition qd_item :: "querydict \<Rightarrow> string \<Rightarrow> string" where
  "qd_item q k = (case qd_get q k of None \<Rightarrow> [] | Some v \<Rightarrow> v)"

text \<open>
  The order that a superuser names in the query string (the first lines of
  \<^verbatim>\<open>SecureRedirectView.get_object\<close> and of \<^verbatim>\<open>ResponseView.get_order\<close>).  A
  primary key that is not a number makes the lookup raise \<^verbatim>\<open>ValueError\<close>.
\<close>

definition superuser_order :: "request \<Rightarrow> world \<Rightarrow> exn + order option" where
  "superuser_order req s =
     (if user_is_superuser req then
        (if qd_contains (GET req) ''order_number'' then
           (case orders_get (\<lambda>x. number x = qd_item (GET req) ''order_number'') s of
              Inl e \<Rightarrow> Inl e
            | Inr x \<Rightarrow> Inr (Some x))
         else if qd_contains (GET req) ''order_id'' then
           (case py_int (qd_item (GET req) ''order_id'') of
              Inl e \<Rightarrow> Inl e
            | Inr n \<Rightarrow>
                (case orders_get (\<lambda>x. order_id x = n) s of
                   Inl e \<Rightarrow> Inl e
                 | Inr x \<Rightarrow> Inr (Some x)))
         else Inr None)
      else Inr None)"

datatype response =
    HttpResponse
  | HttpResponseBadRequest string
  | TemplateResponse string order form string

subsection \<open>\<^verbatim>\<open>SecureRedirectView\<close>\<close>

definition get_object :: "request \<Rightarrow> world \<Rightarrow> exn + order" where
  "get_object req s =
     (case superuser_order req s of
        Inl e \<Rightarrow> Inl e
      | Inr (Some x) \<Rightarrow> Inr x
      | Inr None \<Rightarrow>
          (case checkout_order_id (session s) of
             Some i \<Rightarrow> orders_get (\<lambda>x. order_id x = i) s
           | None \<Rightarrow> Inl (Http404 ''No order found'')))"

definition get_form :: "env \<Rightarrow> order \<Rightarrow> form" where
  "get_form env order = get_submit_form_populated_with_order env order []"

text \<open>
  \<^verbatim>\<open>SecureRedirectView.get\<close>: the response is the template with the order, the
  submit form and the gateway's URL in its context.
\<close>

definition SecureRedirectView_get :: "env \<Rightarrow> request \<Rightarrow> world \<Rightarrow> (exn + response) \<times> world" where
  "SecureRedirectView_get env req s =
     (case get_object req s of
        Inl e \<Rightarrow> (Inl e, s)
      | Inr order \<Rightarrow>
          (let f = get_form env order;
               s1 = snd (save_submit_txn env (number order) (total_incl_tax order) f s);
               resp = TemplateResponse ''systempay/secure_redirect.html'' order f (gateway_URL env);
               s2 = s1\<lparr>session := checkout_session_flush env (session s1)\<rparr>
           in (Inr resp, s2)))"

subsection \<open>\<^verbatim>\<open>ResponseView\<close> and \<^verbatim>\<open>ReturnResponseView\<close>\<close>

definition get_order :: "request \<Rightarrow> world \<Rightarrow> exn + order" where
  "get_order req s =
     (case superuser_order req s of
        Inl e \<Rightarrow> Inl e
      | Inr (Some x) \<Rightarrow> Inr x
      | Inr None \<Rightarrow>
          (let order_no =
                 (if qd_contains (POST req) ''vads_order_id''
                    then Some (qd_item (POST req) ''vads_order_id'')
                  else if qd_contains (GET req) ''vads_order_id''
                    then Some (qd_item (GET req) ''vads_order_id'')
                  else None)
           in case order_no of
                None \<Rightarrow> Inl (Http404 ''No order found'')
              | Some n \<Rightarrow>
                  if n = [] then Inl (Http404 ''No order found'')
                  else (case orders_get (\<lambda>x. number x = n) s of
                          Inl OrderDoesNotExist \<Rightarrow> Inl (Http404 ''The page requested seems outdated'')
                        | Inl e \<Rightarrow> Inl e
                        | Inr x \<Rightarrow> Inr x)))"

text \<open>
  \<^verbatim>\<open>filter(mode=MODE_RETURN, order_number=...).order_by('-date_created')[:1]\<close>.
  Among records of the same date the most recently inserted comes first.
\<close>

definition latest_return_txns :: "world \<Rightarrow> string \<Rightarrow> txn list" where
  "latest_return_txns s n =
     take 1 (rev (sort_key date_created
       (filter (\<lambda>t. mode t = MODE_RETURN \<and> order_number t = Some n) (txns s))))"

definition add_message :: "level \<Rightarrow> string \<Rightarrow> world \<Rightarrow> world" where
  "add_message l m s = s\<lparr>messages := messages s @ [(l, m)]\<rparr>"

definition msg_no_response :: string where
  "msg_no_response =
     ''No response received from your bank for the moment. ''
     @ ''Be patient, we'' @ [CHR 0x27] @ ''ll get back to you as soon as we receive it.''"

definition msg_validated :: string where
  "msg_validated = ''Your payment has been successfully validated.''"

definition msg_rejected :: string where
  "msg_rejected =
     ''Your payment has been rejected for the reason. You will ''
     @ ''not be charged. Contact the support for more details.''"

text \<open>
  \<^verbatim>\<open>ReturnResponseView.get_redirect_url\<close>; \<^verbatim>\<open>reverse\<close> is kept symbolic, the
  name of the route stands for its URL.
\<close>

definition get_redirect_url :: "env \<Rightarrow> request \<Rightarrow> world \<Rightarrow> (exn + string) \<times> world" where
  "get_redirect_url env req s =
     (case get_order req s of
        Inl e \<Rightarrow> (Inl e, s)
      | Inr order \<Rightarrow>
          (let s1 = (case latest_return_txns s (number order) of
                       [] \<Rightarrow> add_message ERROR msg_no_response s
                     | t # _ \<Rightarrow>
                         if is_complete env t then add_message SUCCESS msg_validated s
                         else add_message ERROR msg_rejected s);
               s2 = s1\<lparr>session := (session s1)\<lparr>checkout_order_id := Some (order_id order)\<rparr>\<rparr>
           in (Inr ''checkout:thank-you'', s2)))"

subsection \<open>\<^verbatim>\<open>HandleIPN\<close>\<close>

text \<open>
  \<^verbatim>\<open>SourceType.objects.get_or_create(code='systempay', name='SystemPay')\<close>, then
  \<^verbatim>\<open>add_payment_source\<close> and \<^verbatim>\<open>save_payment_details\<close> of oscar's
  \<^verbatim>\<open>OrderPlacementMixin\<close>: the one source that the view has added is saved with the
  order.
\<close>

definition source_type_get_or_create :: "world \<Rightarrow> world" where
  "source_type_get_or_create s =
     (if (''systempay'', ''SystemPay'') \<in> set (source_types s) then s
      else s\<lparr>source_types := source_types s @ [(''systempay'', ''SystemPay'')]\<rparr>)"

definition save_payment_details :: "source list \<Rightarrow> order \<Rightarrow> world \<Rightarrow> world" where
  "save_payment_details payment_sources order s =
     s\<lparr>sources := sources s @ map (\<lambda>x. x\<lparr>source_order := order_id order\<rparr>) payment_sources\<rparr>"

text \<open>
  \<^verbatim>\<open>handle_ipn\<close>.  Django calls a view while no exception is being handled, so
  \<^verbatim>\<open>handle_request\<close> runs with no active exception.  Of the exceptions of the
  \<^verbatim>\<open>try\<close> block only \<^verbatim>\<open>Order.DoesNotExist\<close> is not raised again.
\<close>

definition handle_ipn :: "env \<Rightarrow> request \<Rightarrow> world \<Rightarrow> (exn + unit) \<times> world" where
  "handle_ipn env req s =
     (case handle_request env None req s of
        (Inl e, s1) \<Rightarrow> (Inl e, s1)
      | (Inr t, s1) \<Rightarrow>
          (case orders_get (\<lambda>x. Some (number x) = order_number t) s1 of
             Inl OrderDoesNotExist \<Rightarrow>
               (Inr (), s1\<lparr>error_log := error_log s1 @
                  [''Unable to retrieve Order #'' @ str_opt (order_number t)]\<rparr>)
           | Inl e \<Rightarrow> (Inl e, s1)
           | Inr order \<Rightarrow>
               (let s2 = source_type_get_or_create s1
                in if operation_type t = Some (OPERATION_TYPE_DEBIT env) then
                     (Inr (), save_payment_details
                        [\<lparr>source_type = ''systempay'', currency = txn_currency env t,
                          amount_allocated = 0, amount_debited = amount t,
                          amount_refunded = 0, reference = txn_reference env t,
                          source_order = 0\<rparr>] order s2)
                   else if operation_type t = Some (OPERATION_TYPE_CREDIT env) then
                     (Inr (), save_payment_details
                        [\<lparr>source_type = ''systempay'', currency = txn_currency env t,
                          amount_allocated = 0, amount_debited = 0,
                          amount_refunded = amount t, reference = txn_reference env t,
                          source_order = 0\<rparr>] order s2)
                   else
                     (Inl (PaymentError (''Unknown operation type '' @ [CHR 0x27]
                             @ str_opt (operation_type t) @ [CHR 0x27])), s2))))"

definition is_PaymentError :: "env \<Rightarrow> exn \<Rightarrow> bool" where
  "is_PaymentError env e =
     (case e of
        PaymentError _ \<Rightarrow> True
      | SystemPayFormNotValid _ \<Rightarrow> systempay_error_is_payment_error env
      | SystemPayGatewayPaymentRejected _ \<Rightarrow> systempay_error_is_payment_error env
      | SystemPayGatewayParamError _ \<Rightarrow> systempay_error_is_payment_error env
      | SystemPayGatewayServerError _ \<Rightarrow> systempay_error_is_payment_error env
      | _ \<Rightarrow> False)"

definition post :: "env \<Rightarrow> request \<Rightarrow> world \<Rightarrow> (exn + response) \<times> world" where
  "post env req s =
     (case handle_ipn env req s of
        (Inl e, s1) \<Rightarrow>
          if is_PaymentError env e then
            (case exc_message env e of
               None \<Rightarrow> (Inl AttributeError, s1)
             | Some m \<Rightarrow> (Inr (HttpResponseBadRequest m), s1))
          else (Inl e, s1)
      | (Inr _, s1) \<Rightarrow> (Inr HttpResponse, s1))"

definition HandleIPN_get :: "env \<Rightarrow> request \<Rightarrow> world \<Rightarrow> (exn + response) \<times> world" where
  "HandleIPN_get env req s =
     (if user_is_superuser req then post env (req\<lparr>POST := GET req\<rparr>) s
      else (Inr HttpResponse, s))"

section \<open>An example shop\<close>

text \<open>
  One instance of the parameters, on which the definitions can be run: a return form is
  valid when it has a signature, the certificate signs every form with the same token,
  a transaction is complete when its result is \<^verbatim>\<open>00\<close>, and the errors of
  \<^verbatim>\<open>exceptions.py\<close> derive from oscar's \<^verbatim>\<open>PaymentError\<close> and carry their
  message.
\<close>

definition example_env :: env where
  "example_env =
     \<lparr>is_valid = (\<lambda>f. dict_get (data f) ''signature'' \<noteq> None),
      cleaned_signature = (\<lambda>f. or_empty (dict_get (data f) ''signature'')),
      printable_form_errors = (\<lambda>f. ''signature: This field is required.''),
      is_signature_valid = (\<lambda>f. dict_get (data f) ''signature'' = Some ''c0ffee''),
      compute_signature = (\<lambda>f. ''c0ffee''),
      get_submit_form = (\<lambda>amt params.
         \<lparr>data = map (\<lambda>(k, v). (k, case v of PStr x \<Rightarrow> x | PInt n \<Rightarrow> str_int n)) params\<rparr>),
      sign = (\<lambda>f. f\<lparr>data := dict_set (data f) ''signature'' ''c0ffee''\<rparr>),
      gateway_URL = ''https://paiement.systempay.fr/vads-payment/'',
      is_complete = (\<lambda>t. result t = Some ''00''),
      txn_currency = (\<lambda>t. ''978''),
      txn_reference = (\<lambda>t. or_empty (trans_id t)),
      OPERATION_TYPE_DEBIT = ''DEBIT'',
      OPERATION_TYPE_CREDIT = ''CREDIT'',
      systempay_error_is_payment_error = True,
      exc_message = (\<lambda>e. case e of
                            SystemPayFormNotValid m \<Rightarrow> Some m
                          | SystemPayGatewayPaymentRejected m \<Rightarrow> Some m
                          | SystemPayGatewayServerError m \<Rightarrow> Some m
                          | PaymentError m \<Rightarrow> Some m
                          | _ \<Rightarrow> None),
      urlencode = (\<lambda>d. concat (map (\<lambda>(k, v). k @ ''='' @ v @ ''&'') d)),
      checkout_session_flush = (\<lambda>x. x\<lparr>checkout_data := []\<rparr>)\<rparr>"

definition example_order :: order where
  "example_order =
     \<lparr>order_id = 1, number = ''ORD-100'', total_incl_tax = 2599 / 100,
      user = Some \<lparr>full_name = ''Ada Lovelace'', email = ''ada@example.org'', pk = 7\<rparr>,
      billing_address = None, shipping_address = None\<rparr>"

definition example_world :: world where
  "example_world =
     \<lparr>txns = [], next_txn_id = 1, clock = 0, orders = [example_order], sources = [],
      source_types = [], error_log = [], messages = [],
      session = \<lparr>checkout_order_id = None, checkout_data = []\<rparr>\<rparr>"

definition callback :: "querydict \<Rightarrow> request" where
  "callback q = \<lparr>user_is_superuser = False, GET = [], POST = q\<rparr>"

section \<open>Notions used in the properties\<close>

text \<open>
  The payment result of a callback is trusted when \<^verbatim>\<open>handle_request\<close> returns the
  record or raises one of the errors of the result classifier.
\<close>

definition result_trusted :: "exn + txn \<Rightarrow> bool" where
  "result_trusted r =
     (case r of
        Inr _ \<Rightarrow> True
      | Inl (SystemPayGatewayPaymentRejected _) \<Rightarrow> True
      | Inl (SystemPayGatewayParamError _) \<Rightarrow> True
      | Inl (SystemPayGatewayServerError _) \<Rightarrow> True
      | Inl (RuntimeError _) \<Rightarrow> True
      | Inl _ \<Rightarrow> False)"

definition submit_txns :: "world \<Rightarrow> string \<Rightarrow> txn list" where
  "submit_txns s n = filter (\<lambda>t. mode t = MODE_SUBMIT \<and> order_number t = Some n) (txns s)"

definition rejected_callback :: request where
  "rejected_callback =
     callback [(''vads_order_id'', ''ORD-100''), (''vads_amount'', ''2599''),
               (''vads_result'', ''05''), (''signature'', ''c0ffee'')]"

definition tampered_callback :: request where
  "tampered_callback =
     callback [(''vads_order_id'', ''ORD-100''), (''vads_amount'', ''2599''),
               (''vads_result'', ''00''), (''signature'', ''bad'')]"

definition unsigned_callback :: request where
  "unsigned_callback =
     callback [(''vads_order_id'', ''ORD-100''), (''vads_amount'', ''2599''),
               (''vads_result'', ''00'')]"

definition retry_callback :: request where
  "retry_callback =
     callback [(''vads_order_id'', ''ORD-100''), (''vads_amount'', ''2599''),
               (''vads_result'', ''17''), (''signature'', ''c0ffee'')]"

definition no_amount_callback :: request where
  "no_amount_callback =
     callback [(''vads_order_id'', ''ORD-100''), (''vads_result'', ''00''),
               (''signature'', ''c0ffee'')]"

definition unknown_order_callback :: request where
  "unknown_order_callback =
     callback [(''vads_order_id'', ''ORD-999''), (''vads_amount'', ''2599''),
               (''vads_result'', ''00''), (''vads_operation_type'', ''DEBIT''),
               (''signature'', ''c0ffee'')]"


definition self_key_callback :: request where
  "self_key_callback =
     callback [(''self'', ''x''), (''vads_order_id'', ''ORD-100''),
               (''vads_result'', ''00''), (''signature'', ''c0ffee'')]"

definition superuser_redirect :: request where
  "superuser_redirect =
     \<lparr>user_is_superuser = True, GET = [(''order_number'', ''ORD-100'')], POST = []\<rparr>"

definition browser_return :: request where
  "browser_return =
     \<lparr>user_is_superuser = False, GET = [], POST = [(''vads_order_id'', ''ORD-100'')]\<rparr>"

section \<open>Properties\<close>

subsection \<open>Evaluating the amount\<close>

lemma py_int_2599: "py_int ''2599'' = Inr 2599"
  by code_simp

lemma int_truediv_100_2599: "int_truediv_100 2599 = Inr (7315534644709949, - 48)"
  by code_simp

lemma py_int_zero: "py_int ''0'' = Inr 0"
  by code_simp

lemma int_truediv_100_zero: "int_truediv_100 0 = Inr (0, 0)"
  by code_simp

lemma py_int_abc: "py_int ''abc'' = Inl ValueError"
  by code_simp

text \<open>
  C5.  A form whose \<^verbatim>\<open>vads_amount\<close> is \<^verbatim>\<open>2599\<close>: the claim expects the decimal
  \<open>25.99\<close>.  \<^verbatim>\<open>get_total_incl_tax\<close> divides by the float \<^verbatim>\<open>100.0\<close> and converts the
  binary64 quotient exactly, so it returns \<open>7315534644709949 / 2^48\<close>, that is
  \<open>25.989999999999998436805981327779591083526611328125\<close>, which is not \<open>2599 / 100\<close>.
\<close>

theorem get_total_incl_tax_2599_inexact:
  "get_total_incl_tax \<lparr>data = (''vads_amount'', ''2599'') # d\<rparr>
     = Inr (7315534644709949 / 281474976710656)
   \<and> (7315534644709949 / 281474976710656 :: rat) \<noteq> 2599 / 100"
  by (simp add: get_total_incl_tax_def dict_get_default_def py_int_2599
        int_truediv_100_2599 D_def)

subsection \<open>Dictionaries of a request\<close>

lemma map_of_qd_to_dict: "map_of (qd_to_dict q) k = qd_get q k"
proof -
  have keys: "set (qd_keys q) = fst ` set q"
    by (simp add: qd_keys_def)
  show ?thesis
  proof (cases "k \<in> fst ` set q")
    case True
    then have "qd_get q k \<noteq> None"
      by (simp add: qd_get_def map_of_eq_None_iff)
    then obtain v where v: "qd_get q k = Some v" by blast
    have "map_of (map (\<lambda>k. (k, case qd_get q k of None \<Rightarrow> [] | Some v \<Rightarrow> v)) (qd_keys q)) k
            = Some (case qd_get q k of None \<Rightarrow> [] | Some v \<Rightarrow> v)"
      using True keys by (simp add: map_of_map_restrict)
    then show ?thesis by (simp add: qd_to_dict_def v)
  next
    case False
    then have "qd_get q k = None"
      by (simp add: qd_get_def map_of_eq_None_iff)
    moreover have "map_of (qd_to_dict q) k = None"
      using False keys by (simp add: qd_to_dict_def map_of_eq_None_iff image_image)
    ultimately show ?thesis by simp
  qed
qed

lemma qd_get_None_iff: "qd_get q k = None \<longleftrightarrow> \<not> qd_contains q k"
  by (simp add: qd_get_def qd_contains_def map_of_eq_None_iff)

subsection \<open>The paths through \<^verbatim>\<open>handle_request\<close>\<close>

lemma dict_get_qd_to_dict: "dict_get (qd_to_dict q) k = qd_get q k"
  by (simp add: dict_get_def map_of_qd_to_dict)

lemma return_form_built:
  assumes "get_return_form_populated_with_request req = Inr f"
  shows "f = get_return_form (qd_to_dict (POST req))"
    and "data f = qd_to_dict (POST req)"
    and "get_order_number f = qd_get (POST req) ''vads_order_id''"
    and "get_extra_result f = qd_get (POST req) ''vads_extra_result''"
    and "\<not> qd_contains (POST req) ''self''"
proof -
  from assms show f: "f = get_return_form (qd_to_dict (POST req))"
    by (simp add: get_return_form_populated_with_request_def Let_def split: if_splits)
  then show "data f = qd_to_dict (POST req)"
    by (simp add: get_return_form_def)
  then show "get_order_number f = qd_get (POST req) ''vads_order_id''"
    and "get_extra_result f = qd_get (POST req) ''vads_extra_result''"
    by (simp_all add: get_order_number_def get_extra_result_def dict_get_qd_to_dict)
  have "set (map fst (qd_to_dict (POST req))) = fst ` set (POST req)"
    by (simp add: qd_to_dict_def qd_keys_def comp_def)
  with assms show "\<not> qd_contains (POST req) ''self''"
    by (simp add: get_return_form_populated_with_request_def Let_def qd_contains_def
          split: if_splits)
qed

lemma return_form_builds:
  assumes "\<not> qd_contains (POST req) ''self''"
  shows "get_return_form_populated_with_request req
           = Inr (get_return_form (qd_to_dict (POST req)))"
proof -
  have "set (map fst (qd_to_dict (POST req))) = fst ` set (POST req)"
    by (simp add: qd_to_dict_def qd_keys_def comp_def)
  with assms show ?thesis
    by (simp add: get_return_form_populated_with_request_def Let_def qd_contains_def)
qed

lemma save_txn_notification_eq:
  "save_txn_notification env no a req s =
     (\<lparr>txn_id = next_txn_id s, mode = MODE_RETURN,
       operation_type = qd_get (POST req) ''vads_operation_type'',
       trans_id = qd_get (POST req) ''vads_trans_id'',
       trans_date = qd_get (POST req) ''vads_trans_date'',
       order_number = no, amount = a,
       auth_result = qd_get (POST req) ''vads_auth_result'',
       result = qd_get (POST req) ''vads_result'',
       raw_request = urlencode env (qd_to_dict (POST req)),
       error_message = None, date_created = clock s\<rparr>,
      s\<lparr>txns := txns s @
           [\<lparr>txn_id = next_txn_id s, mode = MODE_RETURN,
             operation_type = qd_get (POST req) ''vads_operation_type'',
             trans_id = qd_get (POST req) ''vads_trans_id'',
             trans_date = qd_get (POST req) ''vads_trans_date'',
             order_number = no, amount = a,
             auth_result = qd_get (POST req) ''vads_auth_result'',
             result = qd_get (POST req) ''vads_result'',
             raw_request = urlencode env (qd_to_dict (POST req)),
             error_message = None, date_created = clock s\<rparr>],
         next_txn_id := next_txn_id s + 1\<rparr>)"
  by (simp add: save_txn_notification_def save_txn_def txn_create_def Let_def
        dict_get_qd_to_dict)

lemma save_txn_notification_fields:
  assumes "save_txn_notification env no a req s = (t, s1)"
  shows "txn_id t = next_txn_id s" and "mode t = MODE_RETURN" and "amount t = a"
    and "order_number t = no" and "result t = qd_get (POST req) ''vads_result''"
    and "error_message t = None"
    and "s1 = s\<lparr>txns := txns s @ [t], next_txn_id := next_txn_id s + 1\<rparr>"
  using assms unfolding save_txn_notification_eq by auto

lemma handle_request_form_error:
  "get_return_form_populated_with_request req = Inl e
   \<Longrightarrow> handle_request env active req s = (Inl e, s)"
  by (simp add: handle_request_def)

lemma return_form_error:
  "get_return_form_populated_with_request req = Inl e \<Longrightarrow> e = TypeError"
  by (simp add: get_return_form_populated_with_request_def Let_def split: if_splits)

lemma handle_request_amount_error:
  "get_return_form_populated_with_request req = Inr f \<Longrightarrow> get_total_incl_tax f = Inl e
   \<Longrightarrow> handle_request env active req s = (Inl e, s)"
  by (simp add: handle_request_def Let_def)


lemma handle_request_complete:
  assumes "get_return_form_populated_with_request req = Inr f"
    and "get_total_incl_tax f = Inr a"
    and "is_valid env f"
    and "is_signature_valid env f"
    and "save_txn_notification env (get_order_number f) a req s = (t, s1)"
    and "is_complete env t"
  shows "handle_request env active req s = (Inr t, s1)"
  using assms by (simp add: handle_request_def Let_def)

lemma py_int_error: "py_int x = Inl e \<Longrightarrow> e = ValueError"
  by (auto simp: py_int_def split: list.splits if_splits option.splits)

lemma float_of_int_error: "float_of_int n = Inl e \<Longrightarrow> e = OverflowError"
  by (auto simp: float_of_int_def Let_def split: prod.splits if_splits)

lemma get_total_incl_tax_error:
  "get_total_incl_tax f = Inl e \<Longrightarrow> e = ValueError \<or> e = OverflowError"
  by (auto simp: get_total_incl_tax_def int_truediv_100_def Let_def
      dest: py_int_error float_of_int_error split: sum.splits prod.splits)

lemma handle_request_form_invalid:
  assumes "get_return_form_populated_with_request req = Inr f"
    and "get_total_incl_tax f = Inr a"
    and "\<not> is_valid env f"
    and "save_txn_notification env (get_order_number f) a req s = (t, s1)"
  shows "handle_request env active req s =
      (Inl (SystemPayFormNotValid
         (''The data received are not complete: '' @ printable_form_errors env f
          @ ''. See the transaction record #'' @ str_int (txn_id t)
          @ '' for more details'')),
       txn_save (t\<lparr>error_message := Some (printable_form_errors env f)\<rparr>) s1)"
  using assms by (simp add: handle_request_def Let_def)

lemma handle_request_signature_invalid:
  assumes "get_return_form_populated_with_request req = Inr f"
    and "get_total_incl_tax f = Inr a"
    and "is_valid env f"
    and "\<not> is_signature_valid env f"
    and "save_txn_notification env (get_order_number f) a req s = (t, s1)"
  shows "handle_request env active req s =
      (Inl (SystemPayFormNotValid
         (''Incorrect signature. Check SystemPayTransaction #'' @ str_int (txn_id t)
          @ '' for more details'')),
       txn_save (t\<lparr>error_message :=
          Some (''Signature not valid. Get '' @ [CHR 0x27] @ cleaned_signature env f
                @ [CHR 0x27] @ '' instead of '' @ [CHR 0x27] @ compute_signature env f
                @ [CHR 0x27])\<rparr>) s1)"
  using assms by (simp add: handle_request_def Let_def)

lemma txn_save_last:
  assumes "s1 = s\<lparr>txns := txns s @ [t], next_txn_id := n\<rparr>" and "txn_id t' = txn_id t"
  shows "length (txns (txn_save t' s1)) = Suc (length (txns s))"
    and "last (txns (txn_save t' s1)) = t'"
    and "sources (txn_save t' s1) = sources s"
    and "orders (txn_save t' s1) = orders s"
    and "error_log (txn_save t' s1) = error_log s"
  using assms by (simp_all add: txn_save_def)

text \<open>
  Once the form is built and the amount computed, every path through
  \<^verbatim>\<open>handle_request\<close> adds one \<^verbatim>\<open>RETURN\<close> record to the store.
\<close>

lemma handle_request_persists:
  assumes "get_return_form_populated_with_request req = Inr f"
    and "get_total_incl_tax f = Inr a"
  shows "length (txns (snd (handle_request env active req s))) = Suc (length (txns s))
       \<and> txn_id (last (txns (snd (handle_request env active req s)))) = next_txn_id s
       \<and> mode (last (txns (snd (handle_request env active req s)))) = MODE_RETURN
       \<and> amount (last (txns (snd (handle_request env active req s)))) = a
       \<and> order_number (last (txns (snd (handle_request env active req s))))
           = qd_get (POST req) ''vads_order_id''"
  using assms return_form_built(3) [OF assms(1)]
  by (simp add: handle_request_def Let_def save_txn_notification_eq txn_save_def
        split: option.splits)

lemma handle_request_frame:
  "orders (snd (handle_request env active req s)) = orders s
   \<and> sources (snd (handle_request env active req s)) = sources s
   \<and> error_log (snd (handle_request env active req s)) = error_log s
   \<and> source_types (snd (handle_request env active req s)) = source_types s"
  by (simp add: handle_request_def Let_def save_txn_notification_eq txn_save_def
        split: option.splits sum.splits)

subsection \<open>The result classifier\<close>

lemma rejected_form:
  "get_return_form_populated_with_request rejected_callback
     = Inr (get_return_form (qd_to_dict (POST rejected_callback)))"
  by code_simp








subsection \<open>The signature is checked first\<close>

text \<open>
  C2.  Whenever \<^verbatim>\<open>handle_request\<close> returns the record or fails with an error of the
  result classifier, the form was built from the payload, it was valid and
  \<^verbatim>\<open>is_signature_valid\<close> held for it: the classification and the return are reached
  only behind the signature check.
\<close>

theorem signature_checked_before_result_trusted:
  assumes "result_trusted (fst (handle_request env active req s))"
  shows "get_return_form_populated_with_request req
           = Inr (get_return_form (qd_to_dict (POST req)))
       \<and> is_valid env (get_return_form (qd_to_dict (POST req)))
       \<and> is_signature_valid env (get_return_form (qd_to_dict (POST req)))"
proof (cases "get_return_form_populated_with_request req")
  case (Inl e)
  then have "fst (handle_request env active req s) = Inl TypeError"
    using return_form_error [OF Inl] by (simp add: handle_request_form_error)
  with assms show ?thesis
    by (simp add: result_trusted_def)
next
  case form: (Inr f)
  note built = return_form_built(1) [OF form]
  show ?thesis
  proof (cases "get_total_incl_tax f")
    case (Inl e)
    then have "fst (handle_request env active req s) = Inl e"
      using form by (simp add: handle_request_amount_error)
    moreover have "e = ValueError \<or> e = OverflowError"
      using Inl by (rule get_total_incl_tax_error)
    ultimately show ?thesis
      using assms by (auto simp: result_trusted_def)
  next
    case (Inr a)
    obtain t s1 where sv: "save_txn_notification env (get_order_number f) a req s = (t, s1)"
      by (cases "save_txn_notification env (get_order_number f) a req s")
    have "is_valid env f \<and> is_signature_valid env f"
    proof (rule ccontr)
      assume neg: "\<not> (is_valid env f \<and> is_signature_valid env f)"
      have "\<exists>m. fst (handle_request env active req s) = Inl (SystemPayFormNotValid m)"
      proof (cases "is_valid env f")
        case True
        with neg have "\<not> is_signature_valid env f"
          by simp
        from handle_request_signature_invalid [OF form Inr True this sv]
        show ?thesis by simp
      next
        case False
        from handle_request_form_invalid [OF form Inr False sv]
        show ?thesis by simp
      qed
      with assms show False
        by (auto simp: result_trusted_def)
    qed
    with form built show ?thesis by simp
  qed
qed

theorem signature_checked_before_result_trusted_witness:
  "result_trusted (fst (handle_request example_env None rejected_callback example_world))
   \<and> get_return_form_populated_with_request rejected_callback
       = Inr (get_return_form (qd_to_dict (POST rejected_callback)))
   \<and> is_valid example_env (get_return_form (qd_to_dict (POST rejected_callback)))
   \<and> is_signature_valid example_env (get_return_form (qd_to_dict (POST rejected_callback)))"
proof -
  have h: "result_trusted (fst (handle_request example_env None rejected_callback example_world))"
    by code_simp
  show ?thesis
    using h signature_checked_before_result_trusted [OF h] by simp
qed

subsection \<open>Amounts that are not numbers\<close>

text \<open>
  C3.  The claim is that a \<^verbatim>\<open>RETURN\<close> record is persisted for every payload.  A
  payload whose \<^verbatim>\<open>vads_amount\<close> is not an integer makes \<^verbatim>\<open>get_total_incl_tax\<close>
  raise \<^verbatim>\<open>ValueError\<close> before \<^verbatim>\<open>save_txn_notification\<close> is called:
  \<^verbatim>\<open>handle_request\<close> fails and the store is what it was.
\<close>

theorem handle_request_bad_amount_not_recorded:
  "handle_request env active
     (callback [(''vads_order_id'', ''ORD-100''), (''vads_amount'', ''abc'')]) s
   = (Inl ValueError, s)"
proof -
  have "get_return_form_populated_with_request
          (callback [(''vads_order_id'', ''ORD-100''), (''vads_amount'', ''abc'')])
        = Inr (get_return_form (qd_to_dict
            (POST (callback [(''vads_order_id'', ''ORD-100''), (''vads_amount'', ''abc'')]))))"
    by code_simp
  moreover have "get_total_incl_tax (get_return_form (qd_to_dict
            (POST (callback [(''vads_order_id'', ''ORD-100''), (''vads_amount'', ''abc'')]))))
        = Inl ValueError"
    by code_simp
  ultimately show ?thesis by (rule handle_request_amount_error)
qed

subsection \<open>Result code 17\<close>

text \<open>
  C6.  A validly signed callback with result code \<^verbatim>\<open>17\<close> whose record is not
  complete, handled as the notification view does (no exception is being handled): the
  bare \<^verbatim>\<open>raise\<close> has nothing to raise again, and \<^verbatim>\<open>handle_request\<close> fails with
  \<^verbatim>\<open>RuntimeError\<close>.
\<close>

theorem handle_request_17_runtime_error:
  "fst (handle_request example_env None retry_callback example_world)
     = Inl (RuntimeError ''No active exception to reraise'')"
  by code_simp

subsection \<open>A payload without an amount\<close>

text \<open>
  When the payload has no \<^verbatim>\<open>vads_amount\<close> key, \<^verbatim>\<open>get_total_incl_tax\<close> returns
  zero for its form; when the payload has no key \<^verbatim>\<open>self\<close> either, the form is built
  and \<^verbatim>\<open>handle_request\<close> adds one \<^verbatim>\<open>RETURN\<close> record whose amount is zero.
\<close>

lemma missing_amount_is_zero:
  assumes "\<not> qd_contains (POST req) ''vads_amount''"
  shows "get_total_incl_tax (get_return_form (qd_to_dict (POST req))) = Inr 0"
proof -
  have "map_of (qd_to_dict (POST req)) ''vads_amount'' = None"
    using assms by (simp add: map_of_qd_to_dict qd_get_None_iff)
  then show ?thesis
    by (simp add: get_total_incl_tax_def get_return_form_def dict_get_default_def
          py_int_zero int_truediv_100_zero D_def)
qed

lemma missing_amount_recorded_as_zero:
  assumes "\<not> qd_contains (POST req) ''vads_amount''"
    and "\<not> qd_contains (POST req) ''self''"
  shows "length (txns (snd (handle_request env active req s))) = Suc (length (txns s))
       \<and> txn_id (last (txns (snd (handle_request env active req s)))) = next_txn_id s
       \<and> mode (last (txns (snd (handle_request env active req s)))) = MODE_RETURN
       \<and> amount (last (txns (snd (handle_request env active req s)))) = 0"
  using handle_request_persists
    [OF return_form_builds [OF assms(2)] missing_amount_is_zero [OF assms(1)],
     of env active s]
  by simp

text \<open>
  C10.  The claim is that every payload without a \<^verbatim>\<open>vads_amount\<close> key gets a
  \<^verbatim>\<open>RETURN\<close> record with amount zero.  A payload without \<^verbatim>\<open>vads_amount\<close> that
  has a key \<^verbatim>\<open>self\<close> makes the call of \<^verbatim>\<open>get_return_form\<close> raise
  \<^verbatim>\<open>TypeError\<close>, before the amount is read and before
  \<^verbatim>\<open>save_txn_notification\<close> is called: \<^verbatim>\<open>handle_request\<close> fails and the store is
  what it was.
\<close>

theorem handle_request_self_key_not_recorded:
  "\<not> qd_contains (POST self_key_callback) ''vads_amount''
   \<and> handle_request env active self_key_callback s = (Inl TypeError, s)"
proof -
  have "\<not> qd_contains (POST self_key_callback) ''vads_amount''"
    by code_simp
  moreover have "get_return_form_populated_with_request self_key_callback = Inl TypeError"
    by code_simp
  then have "handle_request env active self_key_callback s = (Inl TypeError, s)"
    by (rule handle_request_form_error)
  ultimately show ?thesis by simp
qed

subsection \<open>A signature that does not verify\<close>

lemma handle_ipn_error:
  "fst (handle_request env None req s) = Inl e \<Longrightarrow>
   handle_ipn env req s = (Inl e, snd (handle_request env None req s))"
  by (cases "handle_request env None req s") (simp add: handle_ipn_def)

lemma tampered_form:
  "get_return_form_populated_with_request tampered_callback
     = Inr (get_return_form (qd_to_dict (POST tampered_callback)))"
  by code_simp

lemma tampered_amount:
  "get_total_incl_tax (get_return_form (qd_to_dict (POST tampered_callback)))
     = Inr (7315534644709949 / 281474976710656)"
  by code_simp

lemma tampered_valid:
  "is_valid example_env (get_return_form (qd_to_dict (POST tampered_callback)))"
  by code_simp

lemma tampered_unsigned:
  "\<not> is_signature_valid example_env (get_return_form (qd_to_dict (POST tampered_callback)))"
  by code_simp

text \<open>
  C4, as the claim states it: a signature that does not verify would fail with an error
  type of its own, distinct from the one for malformed fields.  In the example shop the
  callback with a tampered signature and the callback without a signature field both fail
  with \<^verbatim>\<open>SystemPayFormNotValid\<close>.
\<close>

theorem signature_error_type_counterexample:
  "fst (handle_request example_env None tampered_callback example_world)
     = Inl (SystemPayFormNotValid
              ''Incorrect signature. Check SystemPayTransaction #1 for more details'')
   \<and> fst (handle_request example_env None unsigned_callback example_world)
     = Inl (SystemPayFormNotValid
              (''The data received are not complete: signature: This field is required.''
               @ ''. See the transaction record #1 for more details''))"
  by code_simp

text \<open>
  C4, amended.  For every callback payload from which the form is built and the amount
  computed (so that the record is persisted), whose form is valid and whose signature does
  not verify: \<^verbatim>\<open>handle_request\<close> fails with \<^verbatim>\<open>SystemPayFormNotValid\<close> (the error
  type that malformed fields raise too, with the message "Incorrect signature ..." that
  names the record), the record that was just persisted carries a non-empty error message,
  and the notification view raises the same error without adding a payment source.
\<close>

theorem invalid_signature_fails_form_not_valid:
  assumes "get_return_form_populated_with_request req = Inr f"
    and "get_total_incl_tax f = Inr a"
    and "is_valid env f"
    and "\<not> is_signature_valid env f"
  shows "fst (handle_request env active req s)
           = Inl (SystemPayFormNotValid
                    (''Incorrect signature. Check SystemPayTransaction #''
                     @ str_int (next_txn_id s) @ '' for more details''))
       \<and> length (txns (snd (handle_request env active req s))) = Suc (length (txns s))
       \<and> txn_id (last (txns (snd (handle_request env active req s)))) = next_txn_id s
       \<and> mode (last (txns (snd (handle_request env active req s)))) = MODE_RETURN
       \<and> error_message (last (txns (snd (handle_request env active req s))))
           = Some (''Signature not valid. Get '' @ [CHR 0x27] @ cleaned_signature env f
                   @ [CHR 0x27] @ '' instead of '' @ [CHR 0x27] @ compute_signature env f
                   @ [CHR 0x27])
       \<and> error_message (last (txns (snd (handle_request env active req s)))) \<noteq> Some []
       \<and> fst (handle_ipn env req s)
           = Inl (SystemPayFormNotValid
                    (''Incorrect signature. Check SystemPayTransaction #''
                     @ str_int (next_txn_id s) @ '' for more details''))
       \<and> sources (snd (handle_ipn env req s)) = sources s"
proof -
  obtain t s1 where sv: "save_txn_notification env (get_order_number f) a req s = (t, s1)"
    by (cases "save_txn_notification env (get_order_number f) a req s")
  note fields = save_txn_notification_fields [OF sv]
  note path = handle_request_signature_invalid [OF assms sv]
  have err: "fst (handle_request env active req s)
           = Inl (SystemPayFormNotValid
                    (''Incorrect signature. Check SystemPayTransaction #''
                     @ str_int (next_txn_id s) @ '' for more details''))" for active
    using handle_request_signature_invalid [OF assms sv, of active] fields(1) by simp
  have last: "last (txns (snd (handle_request env active req s)))
      = t\<lparr>error_message :=
          Some (''Signature not valid. Get '' @ [CHR 0x27] @ cleaned_signature env f
                @ [CHR 0x27] @ '' instead of '' @ [CHR 0x27] @ compute_signature env f
                @ [CHR 0x27])\<rparr>"
    unfolding path by (simp add: txn_save_last(2) [OF fields(7)])
  have len: "length (txns (snd (handle_request env active req s))) = Suc (length (txns s))"
    unfolding path by (simp add: txn_save_last(1) [OF fields(7)])
  have ipn: "handle_ipn env req s = (Inl (SystemPayFormNotValid
                    (''Incorrect signature. Check SystemPayTransaction #''
                     @ str_int (next_txn_id s) @ '' for more details'')),
                 snd (handle_request env None req s))"
    using err [of None] by (rule handle_ipn_error)
  have src: "sources (snd (handle_ipn env req s)) = sources s"
    unfolding ipn using handle_request_frame [of env None req s] by simp
  show ?thesis
    using err [of active] len ipn src by (simp add: last fields)
qed

theorem invalid_signature_fails_form_not_valid_witness:
  "get_return_form_populated_with_request tampered_callback
     = Inr (get_return_form (qd_to_dict (POST tampered_callback)))
   \<and> get_total_incl_tax (get_return_form (qd_to_dict (POST tampered_callback)))
       = Inr (7315534644709949 / 281474976710656)
   \<and> is_valid example_env (get_return_form (qd_to_dict (POST tampered_callback)))
   \<and> \<not> is_signature_valid example_env
         (get_return_form (qd_to_dict (POST tampered_callback)))
   \<and> error_message (last (txns (snd (handle_request example_env None tampered_callback
                                        example_world)))) \<noteq> Some []
   \<and> sources (snd (handle_ipn example_env tampered_callback example_world))
       = sources example_world"
  using invalid_signature_fails_form_not_valid
    [OF tampered_form tampered_amount tampered_valid tampered_unsigned,
     of None example_world]
    tampered_form tampered_amount tampered_valid tampered_unsigned
  by simp

subsection \<open>Rendering the secure-redirect page\<close>

lemma save_submit_txn_txns:
  "txns (snd (save_submit_txn env n a f s)) = txns s @ [fst (save_submit_txn env n a f s)]"
  by (simp add: save_submit_txn_def save_txn_def txn_create_def Let_def)

lemma save_submit_txn_fields:
  "mode (fst (save_submit_txn env n a f s)) = MODE_SUBMIT"
  "order_number (fst (save_submit_txn env n a f s)) = Some n"
  "amount (fst (save_submit_txn env n a f s)) = a"
  "txn_id (fst (save_submit_txn env n a f s)) = next_txn_id s"
  by (simp_all add: save_submit_txn_def save_txn_def txn_create_def Let_def)

text \<open>
  C7, as the claim states it: no order would ever have two \<^verbatim>\<open>SUBMIT\<close> records.
  A superuser who renders the secure-redirect page of order \<^verbatim>\<open>ORD-100\<close> twice leaves
  two of them in the store.
\<close>

theorem second_render_second_submit_counterexample:
  "length (submit_txns
     (snd (SecureRedirectView_get example_env superuser_redirect
        (snd (SecureRedirectView_get example_env superuser_redirect example_world))))
     ''ORD-100'') = 2"
  by code_simp

text \<open>
  C7, amended.  Every rendering of the secure-redirect page that finds its order appends
  exactly one \<^verbatim>\<open>SUBMIT\<close> record for that order to the store, whatever the store holds
  already: the store does not deduplicate, and the number of \<^verbatim>\<open>SUBMIT\<close> records of
  the order grows by one.
\<close>

theorem render_appends_one_submit:
  assumes "get_object req s = Inr order"
  shows "txns (snd (SecureRedirectView_get env req s))
           = txns s @ [fst (save_submit_txn env (number order) (total_incl_tax order)
                              (get_form env order) s)]
       \<and> mode (last (txns (snd (SecureRedirectView_get env req s)))) = MODE_SUBMIT
       \<and> order_number (last (txns (snd (SecureRedirectView_get env req s))))
           = Some (number order)
       \<and> length (submit_txns (snd (SecureRedirectView_get env req s)) (number order))
           = Suc (length (submit_txns s (number order)))"
proof -
  have t: "txns (snd (SecureRedirectView_get env req s))
           = txns s @ [fst (save_submit_txn env (number order) (total_incl_tax order)
                              (get_form env order) s)]"
    using assms
    by (simp add: SecureRedirectView_get_def Let_def save_submit_txn_txns)
  show ?thesis
    by (simp add: t submit_txns_def save_submit_txn_fields)
qed

theorem render_appends_one_submit_witness:
  "get_object superuser_redirect example_world = Inr example_order
   \<and> length (submit_txns (snd (SecureRedirectView_get example_env superuser_redirect
                                 example_world)) (number example_order))
       = Suc (length (submit_txns example_world (number example_order)))"
proof -
  have h: "get_object superuser_redirect example_world = Inr example_order"
    by code_simp
  show ?thesis
    using h render_appends_one_submit [OF h, of example_env] by simp
qed

subsection \<open>A notification for an unknown order\<close>

lemma handle_request_returns:
  assumes "handle_request env active req s = (Inr t, s1)"
  shows "order_number t = qd_get (POST req) ''vads_order_id''"
    and "orders s1 = orders s" and "sources s1 = sources s" and "error_log s1 = error_log s"
    and "source_types s1 = source_types s"
proof -
  from assms obtain f where f: "get_return_form_populated_with_request req = Inr f"
    by (cases "get_return_form_populated_with_request req")
       (simp_all add: handle_request_form_error)
  from assms f obtain a where a: "get_total_incl_tax f = Inr a"
    by (cases "get_total_incl_tax f") (simp_all add: handle_request_amount_error)
  from assms f a return_form_built(3) [OF f]
  show "order_number t = qd_get (POST req) ''vads_order_id''"
    by (auto simp: handle_request_def Let_def save_txn_notification_eq
        split: if_splits option.splits)
  from handle_request_frame [of env active req s] assms
  show "orders s1 = orders s" and "sources s1 = sources s" and "error_log s1 = error_log s"
    and "source_types s1 = source_types s"
    by simp_all
qed

text \<open>
  C8.  For every notification whose order lookup fails (\<^verbatim>\<open>handle_request\<close> has
  returned the record, and the order reference of the payload matches no stored order),
  the endpoint logs the lookup failure, adds no payment source and no source type, and
  returns the success response.
\<close>

theorem unknown_order_acknowledged:
  assumes "fst (handle_request env None req s) = Inr t"
    and "filter (\<lambda>x. Some (number x) = qd_get (POST req) ''vads_order_id'') (orders s) = []"
  shows "fst (post env req s) = Inr HttpResponse
       \<and> error_log (snd (post env req s))
           = error_log s @ [''Unable to retrieve Order #''
                            @ str_opt (qd_get (POST req) ''vads_order_id'')]
       \<and> sources (snd (post env req s)) = sources s
       \<and> source_types (snd (post env req s)) = source_types s"
proof -
  obtain s1 where hr: "handle_request env None req s = (Inr t, s1)"
    using assms(1) by (cases "handle_request env None req s") simp
  note fr = handle_request_returns [OF hr]
  have lookup: "orders_get (\<lambda>x. Some (number x) = order_number t) s1 = Inl OrderDoesNotExist"
    using assms(2) by (simp add: orders_get_def fr)
  have "handle_ipn env req s =
      (Inr (), s1\<lparr>error_log := error_log s1 @
         [''Unable to retrieve Order #'' @ str_opt (order_number t)]\<rparr>)"
    by (simp add: handle_ipn_def hr lookup)
  then show ?thesis
    by (simp add: post_def fr)
qed

theorem unknown_order_acknowledged_witness:
  "fst (handle_request example_env None unknown_order_callback example_world)
     = Inr (fst (save_txn_notification example_env (Some ''ORD-999'')
                   (7315534644709949 / 281474976710656) unknown_order_callback example_world))
   \<and> filter (\<lambda>x. Some (number x) = qd_get (POST unknown_order_callback) ''vads_order_id'')
        (orders example_world) = []
   \<and> fst (post example_env unknown_order_callback example_world) = Inr HttpResponse
   \<and> error_log (snd (post example_env unknown_order_callback example_world))
       = [''Unable to retrieve Order #ORD-999'']
   \<and> sources (snd (post example_env unknown_order_callback example_world)) = []"
proof -
  have h1: "fst (handle_request example_env None unknown_order_callback example_world)
     = Inr (fst (save_txn_notification example_env (Some ''ORD-999'')
                   (7315534644709949 / 281474976710656) unknown_order_callback example_world))"
    by code_simp
  have h2: "filter (\<lambda>x. Some (number x) = qd_get (POST unknown_order_callback) ''vads_order_id'')
        (orders example_world) = []"
    by code_simp
  have v: "qd_get (POST unknown_order_callback) ''vads_order_id'' = Some ''ORD-999''"
    by code_simp
  have w: "error_log example_world = []" "sources example_world = []"
    by (simp_all add: example_world_def)
  show ?thesis
    using h1 h2 unknown_order_acknowledged [OF h1 h2]
    by (simp add: v w str_opt_def)
qed

subsection \<open>The browser returns before the notification\<close>

text \<open>
  C9.  When the order of a browser-return request has no \<^verbatim>\<open>RETURN\<close> record in the
  store, \<^verbatim>\<open>get_redirect_url\<close> queues exactly one message, the fixed text "No response
  received from your bank for the moment. Be patient, we'll get back to you as soon as we
  receive it.", remembers the order in the session and redirects to the thank-you page.
  The message is a constant: it depends neither on the gateway (so not on a computed
  signature) nor on any stored error message.
\<close>

theorem pending_message_when_no_return_txn:
  assumes "get_order req s = Inr order"
    and "filter (\<lambda>t. mode t = MODE_RETURN \<and> order_number t = Some (number order)) (txns s)
           = []"
  shows "get_redirect_url env req s =
           (Inr ''checkout:thank-you'',
            s\<lparr>messages := messages s @ [(ERROR, msg_no_response)],
              session := (session s)\<lparr>checkout_order_id := Some (order_id order)\<rparr>\<rparr>)
       \<and> msg_no_response =
           ''No response received from your bank for the moment. ''
           @ ''Be patient, we'' @ [CHR 0x27]
           @ ''ll get back to you as soon as we receive it.''"
  using assms
  by (simp add: get_redirect_url_def latest_return_txns_def add_message_def Let_def
        msg_no_response_def)

theorem pending_message_when_no_return_txn_witness:
  "get_order browser_return example_world = Inr example_order
   \<and> filter (\<lambda>t. mode t = MODE_RETURN \<and> order_number t = Some (number example_order))
        (txns example_world) = []
   \<and> messages (snd (get_redirect_url example_env browser_return example_world))
       = [(ERROR, msg_no_response)]"
proof -
  have h1: "get_order browser_return example_world = Inr example_order"
    by code_simp
  have h2: "filter (\<lambda>t. mode t = MODE_RETURN \<and> order_number t = Some (number example_order))
        (txns example_world) = []"
    by (simp add: example_world_def)
  have m: "messages example_world = []"
    by (simp add: example_world_def)
  show ?thesis
    using h1 h2 pending_message_when_no_return_txn [OF h1 h2, of example_env]
    by (simp add: m)
qed

end
